theory Spec2Isabelle
  imports Main
begin

section \<open>The \<open>create_demo_assignment\<close> management command\<close>

text \<open>
  A shallow embedding of \<^verbatim>\<open>apps/learning/management/commands/create_demo_assignment.py\<close>.
  The database is a record of tables, each table a list of rows in storage order. Every
  ORM call of the command is a function on these tables, every exception a value, and
  the calls to services together with the lines written to stdout are appended to an
  event log, so that their order can be stated.
\<close>

subsection \<open>Strings\<close>

text \<open>
  A Python \<^verbatim>\<open>str\<close> is a sequence of Unicode code points. The title of an assignment is
  the one string the command looks into, character by character, so it is kept as the
  list of its code points. Every other string is only compared with strings of its own
  kind or stored, and is kept as the list of its bytes.

  \<^verbatim>\<open>str.strip()\<close> removes white space at both ends: the code points \<^verbatim>\<open>str.isspace\<close>
  accepts, which are 9 to 13, 28 to 32, 133, 160, 5760, 8192 to 8202, 8232, 8233, 8239,
  8287 and 12288.
\<close>

type_synonym unicode = "int list"

definition isspace :: "int \<Rightarrow> bool" where
  "isspace c =
     (c \<in> set [9, 10, 11, 12, 13, 28, 29, 30, 31, 32, 133, 160, 5760,
                8192, 8193, 8194, 8195, 8196, 8197, 8198, 8199, 8200, 8201, 8202,
                8232, 8233, 8239, 8287, 12288])"

definition strip :: "unicode \<Rightarrow> unicode" where
  "strip s = rev (dropWhile isspace (rev (dropWhile isspace s)))"

subsection \<open>Rows\<close>

text \<open>
  Only the columns the command reads or writes are kept. The constants
  \<^verbatim>\<open>AssigneeMode.MANUAL\<close>, \<^verbatim>\<open>AssignmentStatus.ON_CHECKING\<close> and
  \<^verbatim>\<open>AssignmentSubmissionTypes.SOLUTION\<close> are the only members of their enumerations
  that the command names; the other members are kept apart from them by a second
  constructor.
\<close>

datatype assignee_mode = MANUAL | OtherAssigneeMode string

datatype assignment_status = ON_CHECKING | OtherStatus string

datatype submission_types = SOLUTION | OtherSubmissionType string

record course =
  c_id :: int
  c_meta_course_name :: string
  c_main_branch_time_zone :: "string option"

record ('dt, 'dec) assignment =
  a_id :: int
  a_course :: int
  a_title :: unicode
  a_text :: string
  a_deadline_at :: 'dt
  a_maximum_score :: int
  a_weight :: 'dec
  a_submission_type :: string
  a_time_zone :: string
  a_assignee_mode :: assignee_mode

record user =
  u_id :: int
  u_username :: string

record course_teacher =
  ct_id :: int
  ct_course :: int
  ct_teacher :: int
  ct_reviewer :: bool
  ct_lecturer :: bool

record student_assignment =
  sa_id :: int
  sa_assignment :: int
  sa_student :: int
  sa_assignee :: "int option"
  sa_status :: assignment_status

record assignment_comment =
  ac_id :: int
  ac_student_assignment :: int
  ac_type :: submission_types
  ac_text :: string
  ac_author :: int
  ac_is_published :: bool

subsection \<open>Output, events and errors\<close>

text \<open>
  The four texts the command writes, with the values its f-strings interpolate, and the
  style each is written in.
\<close>

datatype 'dt message =
    MissingUsernames
  | UserNotFound
  | StudentAssignmentNotFound
  | ReviewSeeded int int
  | AssignmentOk int unicode 'dt bool

datatype style = WARNING | SUCCESS

datatype 'dt event =
    BulkCreate int
  | UpdateStats int
  | Stdout style "'dt message"

datatype command_error = CourseNotFound | InvalidDeadline | InvalidWeight

datatype error = CommandError command_error | MultipleObjectsReturned

subsection \<open>State, command line and libraries\<close>

record ('dt, 'dec) state =
  courses :: "course list"
  assignments :: "('dt, 'dec) assignment list"
  users :: "user list"
  course_teachers :: "course_teacher list"
  student_assignments :: "student_assignment list"
  comments :: "assignment_comment list"
  events :: "'dt event list"

text \<open>
  The \<^verbatim>\<open>options\<close> dictionary as \<^verbatim>\<open>add_arguments\<close> fills it: \<^verbatim>\<open>--max-score\<close> is
  parsed with \<^verbatim>\<open>type=int\<close>, so it is an integer; the two course selectors and the two
  user names may be absent.
\<close>

record options =
  course_id :: "int option"
  course_name :: "string option"
  title :: unicode
  deadline :: string
  submission_type :: string
  max_score :: int
  weight :: string
  seed_review :: bool
  student_username :: "string option"
  teacher_username :: "string option"

text \<open>
  Modelled from the spec: \<^verbatim>\<open>AssignmentService.bulk_create_student_assignments\<close> and
  \<^verbatim>\<open>update_student_assignment_stats\<close> are missing from the sources. The spec says of
  them that the first "bulk-creates per-student StudentAssignment rows" and that the
  second "recomputes statistics" of one such row, so each is a parameter: any function on
  the table of StudentAssignment rows, which returns normally and leaves the other tables
  alone.

  The other fields are what the command calls from the standard library and the
  framework. \<^verbatim>\<open>datetime.strptime\<close> with the format \<^verbatim>\<open>"%Y-%m-%d %H:%M"\<close> and
  \<^verbatim>\<open>Decimal\<close> are parsers: \<open>None\<close> is the exception the command catches.
  \<^verbatim>\<open>timezone.make_aware\<close> attaches UTC to the parsed time. \<open>bitfield_flags_ok\<close> says
  whether the two assignments to \<^verbatim>\<open>ct.roles\<close> and \<^verbatim>\<open>ct.save()\<close> go through; when
  they raise, the command swallows the exception.
\<close>

record ('dt, 'dec) lib =
  strptime :: "string \<Rightarrow> 'dt option"
  make_aware :: "'dt \<Rightarrow> 'dt"
  Decimal :: "string \<Rightarrow> 'dec option"
  bitfield_flags_ok :: bool
  bulk_create_student_assignments ::
    "('dt, 'dec) assignment \<Rightarrow> student_assignment list \<Rightarrow> student_assignment list"
  update_student_assignment_stats ::
    "int \<Rightarrow> student_assignment list \<Rightarrow> student_assignment list"

subsection \<open>The ORM calls the command makes\<close>

text \<open>
  \<^verbatim>\<open>QuerySet.first()\<close> returns the first row of an ordered query set and orders an
  unordered one by primary key before it does. \<^verbatim>\<open>order_by("-id")\<close> sorts by descending
  key.
\<close>

definition first :: "'a list \<Rightarrow> 'a option" where
  "first rows = (case rows of [] \<Rightarrow> None | r # _ \<Rightarrow> Some r)"

definition order_by_pk :: "('a \<Rightarrow> int) \<Rightarrow> 'a list \<Rightarrow> 'a list" where
  "order_by_pk pk rows = sort_key pk rows"

definition order_by_desc :: "('a \<Rightarrow> int) \<Rightarrow> 'a list \<Rightarrow> 'a list" where
  "order_by_desc pk rows = sort_key (\<lambda>r. - pk r) rows"

text \<open>A new row takes the key after the greatest one of its table.\<close>

definition next_pk :: "('a \<Rightarrow> int) \<Rightarrow> 'a list \<Rightarrow> int" where
  "next_pk pk rows = fold max (map pk rows) 0 + 1"

text \<open>
  \<^verbatim>\<open>get_or_create\<close>: the one matching row, or a new row appended to the table when none
  matches; it raises \<^verbatim>\<open>MultipleObjectsReturned\<close> when several match. The result is the
  row, the flag \<^verbatim>\<open>created\<close> and the table.
\<close>

definition get_or_create ::
  "('a \<Rightarrow> int) \<Rightarrow> ('a \<Rightarrow> bool) \<Rightarrow> (int \<Rightarrow> 'a) \<Rightarrow> 'a list \<Rightarrow> error + ('a \<times> bool \<times> 'a list)" where
  "get_or_create pk matches new rows =
     (case filter matches rows of
        [] \<Rightarrow> (let r = new (next_pk pk rows) in Inr (r, True, rows @ [r]))
      | [r] \<Rightarrow> Inr (r, False, rows)
      | _ \<Rightarrow> Inl MultipleObjectsReturned)"

text \<open>\<^verbatim>\<open>save\<close> is an UPDATE of the rows whose primary key is the object's.\<close>

definition save :: "('a \<Rightarrow> int) \<Rightarrow> int \<Rightarrow> ('a \<Rightarrow> 'a) \<Rightarrow> 'a list \<Rightarrow> 'a list" where
  "save pk k upd rows = map (\<lambda>r. if pk r = k then upd r else r) rows"

subsection \<open>The command\<close>

definition stdout_write :: "style \<Rightarrow> 'dt message \<Rightarrow> ('dt, 'dec) state \<Rightarrow> ('dt, 'dec) state" where
  "stdout_write st m s = s\<lparr>events := events s @ [Stdout st m]\<rparr>"

definition call_bulk_create ::
  "('dt, 'dec) lib \<Rightarrow> ('dt, 'dec) assignment \<Rightarrow> ('dt, 'dec) state \<Rightarrow> ('dt, 'dec) state" where
  "call_bulk_create l a s =
     s\<lparr>student_assignments := bulk_create_student_assignments l a (student_assignments s),
       events := events s @ [BulkCreate (a_id a)]\<rparr>"

definition call_update_stats ::
  "('dt, 'dec) lib \<Rightarrow> int \<Rightarrow> ('dt, 'dec) state \<Rightarrow> ('dt, 'dec) state" where
  "call_update_stats l k s =
     s\<lparr>student_assignments := update_student_assignment_stats l k (student_assignments s),
       events := events s @ [UpdateStats k]\<rparr>"

text \<open>Lines 75 to 81: the course, by key or by the name of its meta course.\<close>

definition find_course :: "options \<Rightarrow> course list \<Rightarrow> course option" where
  "find_course opts cs =
     (case course_id opts of
        Some k \<Rightarrow> first (order_by_pk c_id (filter (\<lambda>c. c_id c = k) cs))
      | None \<Rightarrow>
          first (order_by_desc c_id
                   (filter (\<lambda>c. Some (c_meta_course_name c) = course_name opts) cs)))"

text \<open>
  Lines 74 to 100: everything the command computes from its arguments before it writes.
\<close>

record ('dt, 'dec) resolved =
  r_course :: course
  r_title :: unicode
  r_deadline_utc :: 'dt
  r_submission_type :: string
  r_max_score :: int
  r_weight :: 'dec
  r_tz_name :: string

definition resolve ::
  "('dt, 'dec) lib \<Rightarrow> options \<Rightarrow> ('dt, 'dec) state \<Rightarrow> command_error + ('dt, 'dec) resolved" where
  "resolve l opts s =
     (case find_course opts (courses s) of
        None \<Rightarrow> Inl CourseNotFound
      | Some c \<Rightarrow>
          (case strptime l (deadline opts) of
             None \<Rightarrow> Inl InvalidDeadline
           | Some deadline_dt \<Rightarrow>
               (case Decimal l (weight opts) of
                  None \<Rightarrow> Inl InvalidWeight
                | Some w \<Rightarrow>
                    Inr \<lparr>r_course = c,
                         r_title = strip (title opts),
                         r_deadline_utc = make_aware l deadline_dt,
                         r_submission_type = submission_type opts,
                         r_max_score = (if max_score opts \<noteq> 0 then max_score opts else 10),
                         r_weight = w,
                         r_tz_name = (case c_main_branch_time_zone c of
                                        None \<Rightarrow> ''UTC'' | Some tz \<Rightarrow> tz)\<rparr>)))"

text \<open>Lines 103 to 126: the assignment of that course and title, created or updated.\<close>

definition key_fields ::
  "('dt, 'dec) resolved \<Rightarrow> ('dt, 'dec) assignment \<Rightarrow> ('dt, 'dec) assignment" where
  "key_fields args a =
     a\<lparr>a_deadline_at := r_deadline_utc args,
       a_maximum_score := r_max_score args,
       a_weight := r_weight args,
       a_submission_type := r_submission_type args,
       a_time_zone := r_tz_name args,
       a_assignee_mode := MANUAL\<rparr>"

definition upsert_assignment ::
  "('dt, 'dec) resolved \<Rightarrow> ('dt, 'dec) state \<Rightarrow>
     error + (('dt, 'dec) assignment \<times> bool \<times> ('dt, 'dec) state)" where
  "upsert_assignment args s =
     (case get_or_create a_id
             (\<lambda>a. a_course a = c_id (r_course args) \<and> a_title a = r_title args)
             (\<lambda>k. \<lparr>a_id = k,
                    a_course = c_id (r_course args),
                    a_title = r_title args,
                    a_text = ''Seeded assignment'',
                    a_deadline_at = r_deadline_utc args,
                    a_maximum_score = r_max_score args,
                    a_weight = r_weight args,
                    a_submission_type = r_submission_type args,
                    a_time_zone = r_tz_name args,
                    a_assignee_mode = MANUAL\<rparr>)
             (assignments s) of
        Inl e \<Rightarrow> Inl e
      | Inr (a, created, rows) \<Rightarrow>
          (if created then Inr (a, True, s\<lparr>assignments := rows\<rparr>)
           else Inr (key_fields args a, False,
                     s\<lparr>assignments := save a_id (a_id a) (key_fields args) rows\<rparr>)))"

text \<open>
  Lines 129 to 133: the service call, then one recalculation for each StudentAssignment
  row the query for the assignment returns.
\<close>

definition recalculate ::
  "('dt, 'dec) lib \<Rightarrow> ('dt, 'dec) assignment \<Rightarrow> ('dt, 'dec) state \<Rightarrow> ('dt, 'dec) state" where
  "recalculate l a s =
     (let s1 = call_bulk_create l a s
      in fold (call_update_stats l)
           (map sa_id (filter (\<lambda>sa. sa_assignment sa = a_id a) (student_assignments s1))) s1)"

text \<open>
  Lines 159 to 204. The three queries of the method come first: the user of a name, the
  comments of type SOLUTION of one StudentAssignment row, and the StudentAssignment row
  of an assignment and a student.
\<close>

definition user_by_username :: "string \<Rightarrow> user list \<Rightarrow> user option" where
  "user_by_username name us = first (order_by_pk u_id (filter (\<lambda>u. u_username u = name) us))"

definition solutions_of :: "int \<Rightarrow> assignment_comment list \<Rightarrow> assignment_comment list" where
  "solutions_of k ms = filter (\<lambda>m. ac_student_assignment m = k \<and> ac_type m = SOLUTION) ms"

definition student_assignment_of ::
  "int \<Rightarrow> int \<Rightarrow> student_assignment list \<Rightarrow> student_assignment option" where
  "student_assignment_of a_pk student_pk sas =
     first (order_by_pk sa_id
              (filter (\<lambda>sa. sa_assignment sa = a_pk \<and> sa_student sa = student_pk) sas))"

definition seed_review_item ::
  "('dt, 'dec) lib \<Rightarrow> course \<Rightarrow> ('dt, 'dec) assignment \<Rightarrow> string \<Rightarrow> string \<Rightarrow>
     ('dt, 'dec) state \<Rightarrow> error option \<times> ('dt, 'dec) state" where
  "seed_review_item l c a student_name teacher_name s =
     (case (user_by_username student_name (users s),
            user_by_username teacher_name (users s)) of
        (Some student, Some teacher) \<Rightarrow>
          (case get_or_create ct_id
                  (\<lambda>ct. ct_course ct = c_id c \<and> ct_teacher ct = u_id teacher)
                  (\<lambda>k. \<lparr>ct_id = k, ct_course = c_id c, ct_teacher = u_id teacher,
                         ct_reviewer = False, ct_lecturer = False\<rparr>)
                  (course_teachers s) of
             Inl e \<Rightarrow> (Some e, s)
           | Inr (ct, _, cts) \<Rightarrow>
               (let s1 = s\<lparr>course_teachers :=
                            (if bitfield_flags_ok l
                             then save ct_id (ct_id ct)
                                    (\<lambda>_. ct\<lparr>ct_reviewer := True, ct_lecturer := True\<rparr>) cts
                             else cts)\<rparr>
                in case student_assignment_of (a_id a) (u_id student)
                          (student_assignments s1) of
                     None \<Rightarrow> (None, stdout_write WARNING StudentAssignmentNotFound s1)
                   | Some sa \<Rightarrow>
                       (let s2 = s1\<lparr>student_assignments :=
                                     save sa_id (sa_id sa)
                                       (\<lambda>r. r\<lparr>sa_assignee := Some (ct_id ct),
                                               sa_status := ON_CHECKING\<rparr>)
                                       (student_assignments s1)\<rparr>;
                            new = \<lparr>ac_id = next_pk ac_id (comments s2),
                                   ac_student_assignment = sa_id sa,
                                   ac_type = SOLUTION,
                                   ac_text = ''Seeded solution for review'',
                                   ac_author = u_id student,
                                   ac_is_published = True\<rparr>;
                            found = first (order_by_pk ac_id
                                             (solutions_of (sa_id sa) (comments s2)));
                            solution = (case found of None \<Rightarrow> new | Some m \<Rightarrow> m);
                            s3 = (case found of
                                    None \<Rightarrow> s2\<lparr>comments := comments s2 @ [new]\<rparr>
                                  | Some m \<Rightarrow> s2);
                            s4 = call_update_stats l (sa_id sa) s3
                        in (None, stdout_write SUCCESS
                                    (ReviewSeeded (sa_id sa) (ac_id solution)) s4))))
      | _ \<Rightarrow> (None, stdout_write WARNING UserNotFound s))"

text \<open>
  Lines 136 to 151. An option that is absent or the empty string is false. The last
  branch of the \<open>case\<close> is never taken: both names are present once neither is false.
\<close>

definition falsy :: "string option \<Rightarrow> bool" where
  "falsy x = (case x of None \<Rightarrow> True | Some v \<Rightarrow> v = [])"

definition seed_review_step ::
  "('dt, 'dec) lib \<Rightarrow> options \<Rightarrow> course \<Rightarrow> ('dt, 'dec) assignment \<Rightarrow>
     ('dt, 'dec) state \<Rightarrow> error option \<times> ('dt, 'dec) state" where
  "seed_review_step l opts c a s =
     (if seed_review opts then
        (if falsy (student_username opts) \<or> falsy (teacher_username opts)
         then (None, stdout_write WARNING MissingUsernames s)
         else (case (student_username opts, teacher_username opts) of
                 (Some student_name, Some teacher_name) \<Rightarrow>
                   seed_review_item l c a student_name teacher_name s
               | _ \<Rightarrow> (None, stdout_write WARNING MissingUsernames s)))
      else (None, s))"

text \<open>
  Lines 73 to 157. The result is the exception that ends the command, if any, and the
  state the command leaves: nothing it wrote before an exception is undone.
\<close>

definition handle ::
  "('dt, 'dec) lib \<Rightarrow> options \<Rightarrow> ('dt, 'dec) state \<Rightarrow> error option \<times> ('dt, 'dec) state" where
  "handle l opts s =
     (case resolve l opts s of
        Inl e \<Rightarrow> (Some (CommandError e), s)
      | Inr args \<Rightarrow>
          (case upsert_assignment args s of
             Inl e \<Rightarrow> (Some e, s)
           | Inr (a, created, s1) \<Rightarrow>
               (case seed_review_step l opts (r_course args) a (recalculate l a s1) of
                  (Some e, s3) \<Rightarrow> (Some e, s3)
                | (None, s3) \<Rightarrow>
                    (None, stdout_write SUCCESS
                             (AssignmentOk (a_id a) (a_title a) (a_deadline_at a) created)
                             s3))))"

subsection \<open>A small database to run the command on\<close>

text \<open>
  Two courses of one meta course and a third one, three users, and libraries
  that accept a deadline of the shape \<^verbatim>\<open>dddd-dd-dd dd:dd\<close> and a weight of digits and
  dots. The service enrols the students 20 and 21 in every assignment it is given; the
  user 22 is enrolled in none. The title given ends in a no-break space and an
  ideographic space.
\<close>

definition code_points :: "string \<Rightarrow> unicode" where
  "code_points s = map of_char s"

definition shape :: "string \<Rightarrow> string" where
  "shape d = map (\<lambda>c. if c \<in> set ''0123456789'' then CHR ''9'' else c) d"

definition demo_bulk_create ::
  "(string, string) assignment \<Rightarrow> student_assignment list \<Rightarrow> student_assignment list" where
  "demo_bulk_create a sas =
     fold (\<lambda>st acc.
             if list_ex (\<lambda>sa. sa_assignment sa = a_id a \<and> sa_student sa = st) acc then acc
             else acc @ [\<lparr>sa_id = next_pk sa_id acc, sa_assignment = a_id a,
                           sa_student = st, sa_assignee = None,
                           sa_status = OtherStatus ''not_submitted''\<rparr>])
       [20, 21] sas"

definition demo_lib :: "(string, string) lib" where
  "demo_lib =
     \<lparr>strptime = (\<lambda>d. if shape d = ''9999-99-99 99:99'' then Some d else None),
      make_aware = (\<lambda>d. d @ ''+00:00''),
      Decimal = (\<lambda>w. if w \<noteq> [] \<and> list_all (\<lambda>c. c \<in> set ''0123456789.'') w
                      then Some w else None),
      bitfield_flags_ok = True,
      bulk_create_student_assignments = demo_bulk_create,
      update_student_assignment_stats = (\<lambda>k sas. sas)\<rparr>"

definition demo_state :: "(string, string) state" where
  "demo_state =
     \<lparr>courses =
        [\<lparr>c_id = 1, c_meta_course_name = ''Algorithms'',
          c_main_branch_time_zone = Some ''Europe/Moscow''\<rparr>,
         \<lparr>c_id = 2, c_meta_course_name = ''Algorithms'', c_main_branch_time_zone = None\<rparr>,
         \<lparr>c_id = 3, c_meta_course_name = ''Databases'', c_main_branch_time_zone = None\<rparr>],
      assignments = [],
      users = [\<lparr>u_id = 20, u_username = ''student''\<rparr>,
               \<lparr>u_id = 22, u_username = ''auditor''\<rparr>,
               \<lparr>u_id = 30, u_username = ''teacher''\<rparr>],
      course_teachers = [],
      student_assignments = [],
      comments = [],
      events = []\<rparr>"

definition demo_options :: options where
  "demo_options =
     \<lparr>course_id = None, course_name = Some ''Algorithms'', title = code_points '' Homework 1'' @ [160, 12288],
      deadline = ''2030-01-31 23:59'', submission_type = ''online'', max_score = 10,
      weight = ''1.00'', seed_review = False, student_username = None,
      teacher_username = None\<rparr>"

section \<open>Properties of the command\<close>

subsection \<open>Errors\<close>

lemma get_or_create_error:
  "get_or_create pk m new rows = Inl e \<Longrightarrow> e = MultipleObjectsReturned"
  by (auto simp: get_or_create_def Let_def split: list.splits)

lemma upsert_assignment_error:
  "upsert_assignment args s = Inl e \<Longrightarrow> e = MultipleObjectsReturned"
  by (auto simp: upsert_assignment_def split: sum.splits if_splits dest: get_or_create_error)

lemma seed_review_item_error:
  "seed_review_item l c a sn tn s = (Some e, s') \<Longrightarrow> e = MultipleObjectsReturned"
  by (auto simp: seed_review_item_def Let_def split: option.splits sum.splits prod.splits
           dest: get_or_create_error)

lemma seed_review_step_error:
  "seed_review_step l opts c a s = (Some e, s') \<Longrightarrow> e = MultipleObjectsReturned"
  by (auto simp: seed_review_step_def split: option.splits if_splits
           dest: seed_review_item_error)

subsection \<open>Queries\<close>

lemma first_eq_None [simp]: "first rows = None \<longleftrightarrow> rows = []"
  by (simp add: first_def split: list.splits)

lemma first_eq_Some: "first rows = Some r \<longleftrightarrow> (\<exists>rest. rows = r # rest)"
  by (auto simp: first_def split: list.splits)

lemma order_by_pk_eq_Nil [simp]: "order_by_pk pk rows = [] \<longleftrightarrow> rows = []"
  by (metis order_by_pk_def length_0_conv length_sort)

lemma order_by_desc_eq_Nil [simp]: "order_by_desc pk rows = [] \<longleftrightarrow> rows = []"
  by (metis order_by_desc_def length_0_conv length_sort)

lemma first_sort_key_least:
  assumes "first (sort_key f rows) = Some r"
  shows "r \<in> set rows \<and> (\<forall>r'\<in>set rows. f r \<le> f r')"
proof -
  from assms obtain rest where eq: "sort_key f rows = r # rest"
    by (auto simp: first_eq_Some)
  have "set (sort_key f rows) = set rows" by simp
  with eq have mem: "r \<in> set rows" and sub: "set rows = insert r (set rest)" by auto
  have "sorted (map f (sort_key f rows))" by (rule sorted_sort_key)
  with eq have "\<forall>x\<in>set rest. f r \<le> f x" by simp
  with mem sub show ?thesis by auto
qed

lemma first_order_by_desc_greatest:
  "first (order_by_desc pk rows) = Some r \<Longrightarrow> r \<in> set rows \<and> (\<forall>r'\<in>set rows. pk r' \<le> pk r)"
  using first_sort_key_least [of "\<lambda>r. - pk r" rows r] by (simp add: order_by_desc_def)

lemma first_order_by_pk_least:
  "first (order_by_pk pk rows) = Some r \<Longrightarrow> r \<in> set rows \<and> (\<forall>r'\<in>set rows. pk r \<le> pk r')"
  using first_sort_key_least [of pk rows r] by (simp add: order_by_pk_def)

lemma next_pk_fresh: "r \<in> set rows \<Longrightarrow> pk r < next_pk pk rows"
proof -
  have "\<And>m. \<forall>x\<in>set ks. x \<le> fold max ks m" "\<And>m. m \<le> fold max ks (m::int)" for ks
  proof (induction ks)
    case Nil
    { case 1 show ?case by simp }
    { case 2 show ?case by simp }
  next
    case (Cons k ks)
    { case 1
      have "max k m \<le> fold max ks (max k m)" by (rule Cons.IH(2))
      then show ?case using Cons.IH(1) [of "max k m"] by auto }
    { case 2
      have "max k m \<le> fold max ks (max k m)" by (rule Cons.IH(2))
      then show ?case by auto }
  qed
  then have "\<forall>x\<in>set (map pk rows). x \<le> fold max (map pk rows) 0" by blast
  then show "r \<in> set rows \<Longrightarrow> pk r < next_pk pk rows"
    by (auto simp: next_pk_def intro: le_less_trans)
qed

subsection \<open>What each step leaves alone\<close>

lemma fold_call_update_stats:
  "courses (fold (call_update_stats l) ks s) = courses s"
  "assignments (fold (call_update_stats l) ks s) = assignments s"
  "users (fold (call_update_stats l) ks s) = users s"
  "course_teachers (fold (call_update_stats l) ks s) = course_teachers s"
  "comments (fold (call_update_stats l) ks s) = comments s"
  "events (fold (call_update_stats l) ks s) = events s @ map UpdateStats ks"
  by (induction ks arbitrary: s) (simp_all add: call_update_stats_def)

lemma recalculate_frame:
  "courses (recalculate l a s) = courses s"
  "assignments (recalculate l a s) = assignments s"
  "users (recalculate l a s) = users s"
  "course_teachers (recalculate l a s) = course_teachers s"
  "comments (recalculate l a s) = comments s"
  by (simp_all add: recalculate_def Let_def fold_call_update_stats call_bulk_create_def)

lemma recalculate_events:
  "events (recalculate l a s) =
     events s @ BulkCreate (a_id a) #
       map UpdateStats
         (map sa_id (filter (\<lambda>sa. sa_assignment sa = a_id a)
                       (bulk_create_student_assignments l a (student_assignments s))))"
  by (simp add: recalculate_def Let_def fold_call_update_stats call_bulk_create_def)

lemma stdout_write_frame:
  "courses (stdout_write st m s) = courses s"
  "assignments (stdout_write st m s) = assignments s"
  "users (stdout_write st m s) = users s"
  "course_teachers (stdout_write st m s) = course_teachers s"
  "student_assignments (stdout_write st m s) = student_assignments s"
  "comments (stdout_write st m s) = comments s"
  "events (stdout_write st m s) = events s @ [Stdout st m]"
  by (simp_all add: stdout_write_def)

lemma seed_review_item_frame:
  assumes "seed_review_item l c a sn tn s = (r, s')"
  shows "courses s' = courses s \<and> assignments s' = assignments s \<and> users s' = users s"
  using assms
  by (auto simp: seed_review_item_def Let_def stdout_write_def call_update_stats_def
           split: option.splits sum.splits prod.splits)

lemma seed_review_step_frame:
  assumes "seed_review_step l opts c a s = (r, s')"
  shows "courses s' = courses s \<and> assignments s' = assignments s \<and> users s' = users s"
  using assms
  by (auto simp: seed_review_step_def stdout_write_def
           split: if_splits option.splits dest: seed_review_item_frame)

subsection \<open>The assignment row\<close>

lemma upsert_assignment_created:
  assumes "filter (\<lambda>a. a_course a = c_id (r_course args) \<and> a_title a = r_title args)
             (assignments s) = []"
  shows "upsert_assignment args s =
           Inr (\<lparr>a_id = next_pk a_id (assignments s),
                 a_course = c_id (r_course args),
                 a_title = r_title args,
                 a_text = ''Seeded assignment'',
                 a_deadline_at = r_deadline_utc args,
                 a_maximum_score = r_max_score args,
                 a_weight = r_weight args,
                 a_submission_type = r_submission_type args,
                 a_time_zone = r_tz_name args,
                 a_assignee_mode = MANUAL\<rparr>, True,
                s\<lparr>assignments := assignments s @
                   [\<lparr>a_id = next_pk a_id (assignments s),
                     a_course = c_id (r_course args),
                     a_title = r_title args,
                     a_text = ''Seeded assignment'',
                     a_deadline_at = r_deadline_utc args,
                     a_maximum_score = r_max_score args,
                     a_weight = r_weight args,
                     a_submission_type = r_submission_type args,
                     a_time_zone = r_tz_name args,
                     a_assignee_mode = MANUAL\<rparr>]\<rparr>)"
  using assms by (simp add: upsert_assignment_def get_or_create_def Let_def)

lemma upsert_assignment_updated:
  assumes "filter (\<lambda>a. a_course a = c_id (r_course args) \<and> a_title a = r_title args)
             (assignments s) = [a0]"
  shows "upsert_assignment args s =
           Inr (key_fields args a0, False,
                s\<lparr>assignments := save a_id (a_id a0) (key_fields args) (assignments s)\<rparr>)"
  using assms by (simp add: upsert_assignment_def get_or_create_def)

lemma upsert_assignment_multiple:
  assumes "filter (\<lambda>a. a_course a = c_id (r_course args) \<and> a_title a = r_title args)
             (assignments s) = a0 # a1 # rest"
  shows "upsert_assignment args s = Inl MultipleObjectsReturned"
  using assms by (simp add: upsert_assignment_def get_or_create_def)

lemma handle_success:
  assumes "fst (handle l opts s) = None"
  shows "\<exists>args a created s1 s3.
           resolve l opts s = Inr args \<and>
           upsert_assignment args s = Inr (a, created, s1) \<and>
           seed_review_step l opts (r_course args) a (recalculate l a s1) = (None, s3) \<and>
           snd (handle l opts s) =
             stdout_write SUCCESS (AssignmentOk (a_id a) (a_title a) (a_deadline_at a) created) s3"
  using assms
  by (auto simp: handle_def split: sum.splits prod.splits option.splits)

lemma handle_assignments:
  assumes "resolve l opts s = Inr args" and "upsert_assignment args s = Inr (a, created, s1)"
  shows "assignments (snd (handle l opts s)) = assignments s1"
proof (cases "seed_review_step l opts (r_course args) a (recalculate l a s1)")
  case (Pair r s3)
  then have "assignments s3 = assignments s1"
    using seed_review_step_frame [OF Pair] by (simp add: recalculate_frame)
  then show ?thesis using assms Pair
    by (cases r) (simp_all add: handle_def stdout_write_frame)
qed

lemma resolve_Inr:
  assumes "find_course opts (courses s) = Some c" and "strptime l (deadline opts) = Some d"
      and "Decimal l (weight opts) = Some w"
  shows "resolve l opts s =
           Inr \<lparr>r_course = c, r_title = strip (title opts), r_deadline_utc = make_aware l d,
                r_submission_type = submission_type opts,
                r_max_score = (if max_score opts \<noteq> 0 then max_score opts else 10),
                r_weight = w,
                r_tz_name = (case c_main_branch_time_zone c of None \<Rightarrow> ''UTC'' | Some tz \<Rightarrow> tz)\<rparr>"
  using assms by (simp add: resolve_def)

lemma resolve_InrD:
  assumes "resolve l opts s = Inr args"
  shows "\<exists>c d w. find_course opts (courses s) = Some c \<and> strptime l (deadline opts) = Some d \<and>
           Decimal l (weight opts) = Some w \<and> r_course args = c \<and>
           r_title args = strip (title opts) \<and>
           r_max_score args = (if max_score opts \<noteq> 0 then max_score opts else 10)"
  using assms by (auto simp: resolve_def split: option.splits)

lemma save_filter_key:
  assumes "\<And>r. P (upd r) = P r"
  shows "filter P (save pk k upd rows) = save pk k upd (filter P rows)"
  using assms by (induction rows) (auto simp: save_def)

lemma key_fields_same_key [simp]:
  "a_course (key_fields args a) = a_course a" "a_title (key_fields args a) = a_title a"
  "a_id (key_fields args a) = a_id a"
  "a_maximum_score (key_fields args a) = r_max_score args"
  by (simp_all add: key_fields_def)

lemma upsert_assignment_cases:
  assumes "upsert_assignment args s = Inr (a, created, s1)"
  shows "(created \<and>
            filter (\<lambda>a. a_course a = c_id (r_course args) \<and> a_title a = r_title args)
              (assignments s) = [] \<and>
            s1 = s\<lparr>assignments := assignments s @ [a]\<rparr> \<and>
            a_id a = next_pk a_id (assignments s) \<and> a_maximum_score a = r_max_score args \<and>
            a_course a = c_id (r_course args) \<and> a_title a = r_title args) \<or>
         (\<not> created \<and>
            (\<exists>a0. filter (\<lambda>a. a_course a = c_id (r_course args) \<and> a_title a = r_title args)
                     (assignments s) = [a0] \<and> a = key_fields args a0 \<and>
                   s1 = s\<lparr>assignments := save a_id (a_id a0) (key_fields args) (assignments s)\<rparr>))"
proof (cases "filter (\<lambda>a. a_course a = c_id (r_course args) \<and> a_title a = r_title args)
               (assignments s)")
  case Nil
  from upsert_assignment_created [OF Nil] assms Nil show ?thesis by auto
next
  case (Cons a0 rest)
  show ?thesis
  proof (cases rest)
    case Nil
    with Cons have one: "filter (\<lambda>a. a_course a = c_id (r_course args) \<and> a_title a = r_title args)
               (assignments s) = [a0]" by simp
    from upsert_assignment_updated [OF one] assms one show ?thesis by auto
  next
    case (Cons a1 rest')
    with \<open>filter _ _ = a0 # rest\<close>
    have "filter (\<lambda>a. a_course a = c_id (r_course args) \<and> a_title a = r_title args)
               (assignments s) = a0 # a1 # rest'" by simp
    from upsert_assignment_multiple [OF this] assms show ?thesis by simp
  qed
qed

text \<open>After the step exactly one row has the course and the title, and it is the row returned.\<close>

lemma upsert_assignment_unique:
  assumes "upsert_assignment args s = Inr (a, created, s1)"
  shows "filter (\<lambda>a. a_course a = c_id (r_course args) \<and> a_title a = r_title args)
           (assignments s1) = [a]"
  using upsert_assignment_cases [OF assms]
proof (elim disjE conjE exE)
  assume "s1 = s\<lparr>assignments := assignments s @ [a]\<rparr>"
    "filter (\<lambda>a. a_course a = c_id (r_course args) \<and> a_title a = r_title args)
       (assignments s) = []"
    "a_course a = c_id (r_course args)" "a_title a = r_title args"
  then show ?thesis by simp
next
  fix a0
  assume one: "filter (\<lambda>a. a_course a = c_id (r_course args) \<and> a_title a = r_title args)
                 (assignments s) = [a0]"
    and a: "a = key_fields args a0"
    and s1: "s1 = s\<lparr>assignments := save a_id (a_id a0) (key_fields args) (assignments s)\<rparr>"
  have "filter (\<lambda>a. a_course a = c_id (r_course args) \<and> a_title a = r_title args)
          (save a_id (a_id a0) (key_fields args) (assignments s)) =
        save a_id (a_id a0) (key_fields args)
          (filter (\<lambda>a. a_course a = c_id (r_course args) \<and> a_title a = r_title args)
             (assignments s))"
    by (rule save_filter_key) simp
  with one a s1 show ?thesis by (simp add: save_def)
qed

lemma upsert_assignment_row:
  assumes "upsert_assignment args s = Inr (a, created, s1)"
  shows "a \<in> set (assignments s1) \<and> a_course a = c_id (r_course args)"
proof -
  have "a \<in> set (filter (\<lambda>a. a_course a = c_id (r_course args) \<and> a_title a = r_title args)
                   (assignments s1))"
    by (simp add: upsert_assignment_unique [OF assms])
  then show ?thesis by simp
qed

lemma upsert_assignment_frame:
  assumes "upsert_assignment args s = Inr (a, created, s1)"
  shows "courses s1 = courses s" "users s1 = users s" "course_teachers s1 = course_teachers s"
    "student_assignments s1 = student_assignments s" "comments s1 = comments s"
    "events s1 = events s"
  using upsert_assignment_cases [OF assms] by auto

lemma save_other_keys:
  assumes "\<forall>r\<in>set rows. pk r \<noteq> k"
  shows "save pk k upd rows = rows"
  using assms by (induction rows) (auto simp: save_def)

subsection \<open>Users and links\<close>

lemma user_by_username_None:
  "user_by_username name us = None \<longleftrightarrow> (\<forall>u\<in>set us. u_username u \<noteq> name)"
  by (auto simp: user_by_username_def filter_empty_conv)

lemma student_assignment_of_None:
  "student_assignment_of a_pk student_pk sas = None \<longleftrightarrow>
     (\<forall>sa\<in>set sas. \<not> (sa_assignment sa = a_pk \<and> sa_student sa = student_pk))"
  by (auto simp: student_assignment_of_def filter_empty_conv)

lemma seed_review_item_no_user:
  assumes "user_by_username sn (users s) = None \<or> user_by_username tn (users s) = None"
  shows "seed_review_item l c a sn tn s = (None, stdout_write WARNING UserNotFound s)"
  using assms by (auto simp: seed_review_item_def split: option.splits)

lemma get_or_create_at_most_one:
  assumes "length (filter m rows) \<le> 1"
  shows "\<exists>r created rows'. get_or_create pk m new rows = Inr (r, created, rows')"
  using assms by (auto simp: get_or_create_def Let_def split: list.splits)

subsection \<open>The errors of the command\<close>

text \<open>
  Claim C2. The command raises \<^verbatim>\<open>CommandError\<close> exactly when the course is not found,
  when the deadline does not parse, or when the weight is not a decimal. The three checks
  are made in this order, each raises its own error, and the state the command leaves is
  the state it started in: no row of any table has been created or modified. When all
  three checks pass, whatever else happens is not a \<^verbatim>\<open>CommandError\<close>.
\<close>

theorem handle_command_error:
  "(find_course opts (courses s) = None \<longrightarrow>
      handle l opts s = (Some (CommandError CourseNotFound), s)) \<and>
   (find_course opts (courses s) \<noteq> None \<and> strptime l (deadline opts) = None \<longrightarrow>
      handle l opts s = (Some (CommandError InvalidDeadline), s)) \<and>
   (find_course opts (courses s) \<noteq> None \<and> strptime l (deadline opts) \<noteq> None \<and>
    Decimal l (weight opts) = None \<longrightarrow>
      handle l opts s = (Some (CommandError InvalidWeight), s)) \<and>
   (find_course opts (courses s) \<noteq> None \<and> strptime l (deadline opts) \<noteq> None \<and>
    Decimal l (weight opts) \<noteq> None \<longrightarrow>
      (\<forall>e. fst (handle l opts s) \<noteq> Some (CommandError e)))"
proof (intro conjI impI)
  assume "find_course opts (courses s) = None"
  then show "handle l opts s = (Some (CommandError CourseNotFound), s)"
    by (simp add: handle_def resolve_def)
next
  assume "find_course opts (courses s) \<noteq> None \<and> strptime l (deadline opts) = None"
  then show "handle l opts s = (Some (CommandError InvalidDeadline), s)"
    by (auto simp: handle_def resolve_def)
next
  assume "find_course opts (courses s) \<noteq> None \<and> strptime l (deadline opts) \<noteq> None \<and>
    Decimal l (weight opts) = None"
  then show "handle l opts s = (Some (CommandError InvalidWeight), s)"
    by (auto simp: handle_def resolve_def)
next
  assume "find_course opts (courses s) \<noteq> None \<and> strptime l (deadline opts) \<noteq> None \<and>
    Decimal l (weight opts) \<noteq> None"
  then obtain args where r: "resolve l opts s = Inr args"
    by (auto simp: resolve_def)
  show "\<forall>e. fst (handle l opts s) \<noteq> Some (CommandError e)"
  proof (cases "upsert_assignment args s")
    case (Inl e)
    then show ?thesis using r by (auto simp: handle_def dest: upsert_assignment_error)
  next
    case (Inr t)
    obtain a' created s1 where t: "t = (a', created, s1)" by (cases t) auto
    show ?thesis
    proof (cases "seed_review_step l opts (r_course args) a' (recalculate l a' s1)")
      case (Pair x s3)
      then show ?thesis using r Inr t
        by (cases x) (auto simp: handle_def dest: seed_review_step_error)
    qed
  qed
qed

theorem handle_command_error_witness:
  "handle demo_lib (demo_options\<lparr>course_name := Some ''Physics''\<rparr>) demo_state =
     (Some (CommandError CourseNotFound), demo_state) \<and>
   handle demo_lib (demo_options\<lparr>deadline := ''31.01.2030''\<rparr>) demo_state =
     (Some (CommandError InvalidDeadline), demo_state) \<and>
   handle demo_lib (demo_options\<lparr>weight := ''heavy''\<rparr>) demo_state =
     (Some (CommandError InvalidWeight), demo_state) \<and>
   fst (handle demo_lib demo_options demo_state) \<noteq> Some (CommandError CourseNotFound)"
proof -
  have c1: "find_course (demo_options\<lparr>course_name := Some ''Physics''\<rparr>) (courses demo_state) = None"
    by code_simp
  have c2: "find_course (demo_options\<lparr>deadline := ''31.01.2030''\<rparr>) (courses demo_state) \<noteq> None \<and>
            strptime demo_lib (deadline (demo_options\<lparr>deadline := ''31.01.2030''\<rparr>)) = None"
    by code_simp
  have c3: "find_course (demo_options\<lparr>weight := ''heavy''\<rparr>) (courses demo_state) \<noteq> None \<and>
            strptime demo_lib (deadline (demo_options\<lparr>weight := ''heavy''\<rparr>)) \<noteq> None \<and>
            Decimal demo_lib (weight (demo_options\<lparr>weight := ''heavy''\<rparr>)) = None"
    by code_simp
  have c4: "find_course demo_options (courses demo_state) \<noteq> None \<and>
            strptime demo_lib (deadline demo_options) \<noteq> None \<and>
            Decimal demo_lib (weight demo_options) \<noteq> None"
    by code_simp
  note t1 = handle_command_error [where l = demo_lib and s = demo_state
                and opts = "demo_options\<lparr>course_name := Some ''Physics''\<rparr>",
              THEN conjunct1, rule_format, OF c1]
  note t2 = handle_command_error [where l = demo_lib and s = demo_state
                and opts = "demo_options\<lparr>deadline := ''31.01.2030''\<rparr>",
              THEN conjunct2, THEN conjunct1, rule_format, OF c2]
  note t3 = handle_command_error [where l = demo_lib and s = demo_state
                and opts = "demo_options\<lparr>weight := ''heavy''\<rparr>",
              THEN conjunct2, THEN conjunct2, THEN conjunct1, rule_format, OF c3]
  note t4 = handle_command_error [where l = demo_lib and s = demo_state
                and opts = demo_options,
              THEN conjunct2, THEN conjunct2, THEN conjunct2, rule_format, OF c4]
  from t1 t2 t3 t4 show ?thesis
    by (intro conjI)
qed

subsection \<open>The course\<close>

text \<open>
  Claim C10. When the course is given by the name of its meta course and several courses
  carry that name, the command takes the one with the greatest primary key: that course
  is what the arguments resolve to, and when the command succeeds, the assignment it
  reports is a row of that course.
\<close>

theorem course_name_takes_greatest_pk:
  assumes "course_id opts = None" and "course_name opts = Some n"
      and "c0 \<in> set (courses s)" and "c_meta_course_name c0 = n"
  shows "\<exists>c. find_course opts (courses s) = Some c \<and>
             c \<in> set (courses s) \<and> c_meta_course_name c = n \<and>
             (\<forall>c'\<in>set (courses s). c_meta_course_name c' = n \<longrightarrow> c_id c' \<le> c_id c) \<and>
             (\<forall>args. resolve l opts s = Inr args \<longrightarrow> r_course args = c) \<and>
             (fst (handle l opts s) = None \<longrightarrow>
                (\<exists>a created. a \<in> set (assignments (snd (handle l opts s))) \<and>
                   a_course a = c_id c \<and>
                   last (events (snd (handle l opts s))) =
                     Stdout SUCCESS (AssignmentOk (a_id a) (a_title a) (a_deadline_at a) created)))"
proof -
  let ?named = "filter (\<lambda>c. Some (c_meta_course_name c) = course_name opts) (courses s)"
  have fc: "find_course opts (courses s) = first (order_by_desc c_id ?named)"
    using assms(1) by (simp add: find_course_def)
  have "?named \<noteq> []" using assms by (auto simp: filter_empty_conv)
  then have "order_by_desc c_id ?named \<noteq> []" by simp
  then obtain c where c: "first (order_by_desc c_id ?named) = Some c"
    by (cases "order_by_desc c_id ?named") (auto simp: first_def)
  from first_order_by_desc_greatest [OF c]
  have mem: "c \<in> set ?named" and top: "\<forall>c'\<in>set ?named. c_id c' \<le> c_id c" by auto
  have res: "\<forall>args. resolve l opts s = Inr args \<longrightarrow> r_course args = c"
    using fc c by (auto dest: resolve_InrD)
  have run: "\<exists>a created. a \<in> set (assignments (snd (handle l opts s))) \<and>
                   a_course a = c_id c \<and>
                   last (events (snd (handle l opts s))) =
                     Stdout SUCCESS (AssignmentOk (a_id a) (a_title a) (a_deadline_at a) created)"
    if ok: "fst (handle l opts s) = None"
  proof -
    from handle_success [OF ok] obtain args a created s1 s3 where
      r: "resolve l opts s = Inr args" and
      u: "upsert_assignment args s = Inr (a, created, s1)" and
      h: "snd (handle l opts s) =
            stdout_write SUCCESS (AssignmentOk (a_id a) (a_title a) (a_deadline_at a) created) s3"
      by blast
    have rc: "r_course args = c" using res r by blast
    have as: "assignments (snd (handle l opts s)) = assignments s1"
      by (rule handle_assignments [OF r u])
    have "a \<in> set (assignments s1) \<and> a_course a = c_id (r_course args)"
      by (rule upsert_assignment_row [OF u])
    with rc as h show ?thesis by (auto simp: stdout_write_frame)
  qed
  from fc c mem top res run assms(2) show ?thesis by auto
qed

theorem course_name_takes_greatest_pk_witness:
  "\<exists>c. find_course demo_options (courses demo_state) = Some c \<and> c_id c = 2 \<and>
       (\<exists>a created. a \<in> set (assignments (snd (handle demo_lib demo_options demo_state))) \<and>
          a_course a = 2 \<and>
          last (events (snd (handle demo_lib demo_options demo_state))) =
            Stdout SUCCESS (AssignmentOk (a_id a) (a_title a) (a_deadline_at a) created))"
proof -
  have h1: "course_id demo_options = None" by code_simp
  have h2: "course_name demo_options = Some ''Algorithms''" by code_simp
  have h3: "\<lparr>c_id = 1, c_meta_course_name = ''Algorithms'',
              c_main_branch_time_zone = Some ''Europe/Moscow''\<rparr> \<in> set (courses demo_state)"
    by (simp add: demo_state_def)
  have h4: "c_meta_course_name \<lparr>c_id = 1, c_meta_course_name = ''Algorithms'',
              c_main_branch_time_zone = Some ''Europe/Moscow''\<rparr> = ''Algorithms''"
    by simp
  have ok: "fst (handle demo_lib demo_options demo_state) = None" by code_simp
  have two: "find_course demo_options (courses demo_state) =
               Some \<lparr>c_id = 2, c_meta_course_name = ''Algorithms'',
                     c_main_branch_time_zone = None\<rparr>"
    by code_simp
  from course_name_takes_greatest_pk [where l = demo_lib, OF h1 h2 h3 h4]
  obtain c where c: "find_course demo_options (courses demo_state) = Some c"
    and run: "fst (handle demo_lib demo_options demo_state) = None \<longrightarrow>
                (\<exists>a created. a \<in> set (assignments (snd (handle demo_lib demo_options demo_state))) \<and>
                   a_course a = c_id c \<and>
                   last (events (snd (handle demo_lib demo_options demo_state))) =
                     Stdout SUCCESS (AssignmentOk (a_id a) (a_title a) (a_deadline_at a) created))"
    by (elim exE conjE)
  from c two have "c = \<lparr>c_id = 2, c_meta_course_name = ''Algorithms'',
                          c_main_branch_time_zone = None\<rparr>" by simp
  then have "c_id c = 2" by simp
  with c run ok show ?thesis by auto
qed

subsection \<open>The assignment, created or updated\<close>

text \<open>
  Several rows of the course and title make \<^verbatim>\<open>get_or_create\<close> raise, and the command ends
  there with nothing written.
\<close>

lemma handle_multiple_assignments:
  assumes "resolve l opts s = Inr args"
      and "filter (\<lambda>a. a_course a = c_id (r_course args) \<and> a_title a = r_title args)
             (assignments s) = a0 # a1 # rest"
  shows "handle l opts s = (Some MultipleObjectsReturned, s)"
  using assms(1) upsert_assignment_multiple [OF assms(2)] by (simp add: handle_def)

text \<open>
  What lines 103 to 126 do to the table of assignments, which is the table the whole
  command leaves. When no assignment of the course has the stripped title, exactly one
  row is appended, with the given deadline, weight and submission type. When exactly one
  has it, no row is added and the deadline, maximum score, weight, submission type, time
  zone and assignee mode are set in the rows of its key. The time zone is the one of the
  main branch of the course, or UTC, and the assignee mode is MANUAL. The maximum score
  written is the one given, except that 0 is written as 10.
\<close>

theorem assignment_created_or_updated:
  assumes "find_course opts (courses s) = Some c"
      and "strptime l (deadline opts) = Some d"
      and "Decimal l (weight opts) = Some w"
  shows "(filter (\<lambda>a. a_course a = c_id c \<and> a_title a = strip (title opts)) (assignments s) = []
            \<longrightarrow>
          assignments (snd (handle l opts s)) =
            assignments s @
              [\<lparr>a_id = next_pk a_id (assignments s),
                a_course = c_id c,
                a_title = strip (title opts),
                a_text = ''Seeded assignment'',
                a_deadline_at = make_aware l d,
                a_maximum_score = (if max_score opts = 0 then 10 else max_score opts),
                a_weight = w,
                a_submission_type = submission_type opts,
                a_time_zone = (case c_main_branch_time_zone c of
                                 None \<Rightarrow> ''UTC'' | Some tz \<Rightarrow> tz),
                a_assignee_mode = MANUAL\<rparr>]) \<and>
         (\<forall>a0. filter (\<lambda>a. a_course a = c_id c \<and> a_title a = strip (title opts))
                 (assignments s) = [a0] \<longrightarrow>
            assignments (snd (handle l opts s)) =
              map (\<lambda>r. if a_id r = a_id a0
                        then r\<lparr>a_deadline_at := make_aware l d,
                               a_maximum_score := (if max_score opts = 0 then 10 else max_score opts),
                               a_weight := w,
                               a_submission_type := submission_type opts,
                               a_time_zone := (case c_main_branch_time_zone c of
                                                 None \<Rightarrow> ''UTC'' | Some tz \<Rightarrow> tz),
                               a_assignee_mode := MANUAL\<rparr>
                        else r)
                (assignments s))"
proof -
  let ?args = "\<lparr>r_course = c, r_title = strip (title opts), r_deadline_utc = make_aware l d,
                r_submission_type = submission_type opts,
                r_max_score = (if max_score opts \<noteq> 0 then max_score opts else 10),
                r_weight = w,
                r_tz_name = (case c_main_branch_time_zone c of None \<Rightarrow> ''UTC'' | Some tz \<Rightarrow> tz)\<rparr>"
  have r: "resolve l opts s = Inr ?args"
    by (rule resolve_Inr [OF assms(1-3)])
  show ?thesis
  proof (intro conjI impI allI)
    assume none: "filter (\<lambda>a. a_course a = c_id c \<and> a_title a = strip (title opts))
                    (assignments s) = []"
    then have "filter (\<lambda>a. a_course a = c_id (r_course ?args) \<and> a_title a = r_title ?args)
                 (assignments s) = []" by simp
    from handle_assignments [OF r upsert_assignment_created [OF this]]
    show "assignments (snd (handle l opts s)) =
            assignments s @
              [\<lparr>a_id = next_pk a_id (assignments s),
                a_course = c_id c,
                a_title = strip (title opts),
                a_text = ''Seeded assignment'',
                a_deadline_at = make_aware l d,
                a_maximum_score = (if max_score opts = 0 then 10 else max_score opts),
                a_weight = w,
                a_submission_type = submission_type opts,
                a_time_zone = (case c_main_branch_time_zone c of
                                 None \<Rightarrow> ''UTC'' | Some tz \<Rightarrow> tz),
                a_assignee_mode = MANUAL\<rparr>]"
      by simp
  next
    fix a0
    assume "filter (\<lambda>a. a_course a = c_id c \<and> a_title a = strip (title opts))
              (assignments s) = [a0]"
    then have "filter (\<lambda>a. a_course a = c_id (r_course ?args) \<and> a_title a = r_title ?args)
                 (assignments s) = [a0]" by simp
    from handle_assignments [OF r upsert_assignment_updated [OF this]]
    show "assignments (snd (handle l opts s)) =
              map (\<lambda>r. if a_id r = a_id a0
                        then r\<lparr>a_deadline_at := make_aware l d,
                               a_maximum_score := (if max_score opts = 0 then 10 else max_score opts),
                               a_weight := w,
                               a_submission_type := submission_type opts,
                               a_time_zone := (case c_main_branch_time_zone c of
                                                 None \<Rightarrow> ''UTC'' | Some tz \<Rightarrow> tz),
                               a_assignee_mode := MANUAL\<rparr>
                        else r)
                (assignments s)"
      by (simp add: save_def key_fields_def)
  qed
qed

text \<open>
  Claim C4 holds of the command but for the maximum score 0. Run on a table with no
  assignment, with \<^verbatim>\<open>--max-score 0\<close>, the command succeeds and appends exactly one row,
  which carries the given deadline, weight and submission type and the maximum score 10,
  not the 0 given: line 93 takes the 0 for an absent value, though the flag was passed.
\<close>

theorem assignment_zero_score_divergence:
  "max_score (demo_options\<lparr>max_score := 0\<rparr>) = 0 \<and>
   assignments demo_state = [] \<and>
   fst (handle demo_lib (demo_options\<lparr>max_score := 0\<rparr>) demo_state) = None \<and>
   assignments (snd (handle demo_lib (demo_options\<lparr>max_score := 0\<rparr>) demo_state)) =
     [\<lparr>a_id = 1, a_course = 2, a_title = code_points ''Homework 1'',
       a_text = ''Seeded assignment'',
       a_deadline_at = ''2030-01-31 23:59+00:00'', a_maximum_score = 10,
       a_weight = ''1.00'', a_submission_type = ''online'', a_time_zone = ''UTC'',
       a_assignee_mode = MANUAL\<rparr>]"
proof -
  let ?c = "\<lparr>c_id = 2, c_meta_course_name = ''Algorithms'', c_main_branch_time_zone = None\<rparr>"
  let ?o = "demo_options\<lparr>max_score := 0\<rparr>"
  have z: "max_score ?o = 0" by code_simp
  have n: "assignments demo_state = []" by code_simp
  have ok: "fst (handle demo_lib ?o demo_state) = None" by code_simp
  have c1: "find_course ?o (courses demo_state) = Some ?c" by code_simp
  have d1: "strptime demo_lib (deadline ?o) = Some ''2030-01-31 23:59''" by code_simp
  have w1: "Decimal demo_lib (weight ?o) = Some ''1.00''" by code_simp
  have f1: "filter (\<lambda>a. a_course a = c_id ?c \<and> a_title a = strip (title ?o))
              (assignments demo_state) = []"
    by code_simp
  note t1 = assignment_created_or_updated [OF c1 d1 w1, THEN conjunct1, rule_format, OF f1]
  have e1: "assignments demo_state @
              [\<lparr>a_id = next_pk a_id (assignments demo_state),
                a_course = c_id ?c,
                a_title = strip (title ?o),
                a_text = ''Seeded assignment'',
                a_deadline_at = make_aware demo_lib ''2030-01-31 23:59'',
                a_maximum_score = (if max_score ?o = 0 then 10 else max_score ?o),
                a_weight = ''1.00'',
                a_submission_type = submission_type ?o,
                a_time_zone = (case c_main_branch_time_zone ?c of
                                 None \<Rightarrow> ''UTC'' | Some tz \<Rightarrow> tz),
                a_assignee_mode = MANUAL\<rparr>] =
     [\<lparr>a_id = 1, a_course = 2, a_title = code_points ''Homework 1'',
       a_text = ''Seeded assignment'',
       a_deadline_at = ''2030-01-31 23:59+00:00'', a_maximum_score = 10,
       a_weight = ''1.00'', a_submission_type = ''online'', a_time_zone = ''UTC'',
       a_assignee_mode = MANUAL\<rparr>]"
    by code_simp
  from t1 e1 have "assignments (snd (handle demo_lib ?o demo_state)) =
     [\<lparr>a_id = 1, a_course = 2, a_title = code_points ''Homework 1'',
       a_text = ''Seeded assignment'',
       a_deadline_at = ''2030-01-31 23:59+00:00'', a_maximum_score = 10,
       a_weight = ''1.00'', a_submission_type = ''online'', a_time_zone = ''UTC'',
       a_assignee_mode = MANUAL\<rparr>]"
    by (rule trans)
  with z n ok show ?thesis by (intro conjI)
qed

text \<open>
  Claim C8. The maximum score 0 is replaced by 10: when \<^verbatim>\<open>--max-score 0\<close> is passed and the
  command gets as far as the assignment (the course is found, the deadline and the weight
  parse, and at most one assignment has the course and the title), the one assignment of
  that course and title in the state the command leaves has the maximum score 10, whether
  it was created or updated.
\<close>

theorem zero_max_score_becomes_ten:
  assumes "max_score opts = 0"
      and "find_course opts (courses s) = Some c"
      and "strptime l (deadline opts) = Some d"
      and "Decimal l (weight opts) = Some w"
      and "length (filter (\<lambda>a. a_course a = c_id c \<and> a_title a = strip (title opts))
                     (assignments s)) \<le> 1"
  shows "\<exists>a. filter (\<lambda>a. a_course a = c_id c \<and> a_title a = strip (title opts))
               (assignments (snd (handle l opts s))) = [a] \<and>
             a_maximum_score a = 10"
proof -
  let ?args = "\<lparr>r_course = c, r_title = strip (title opts), r_deadline_utc = make_aware l d,
                r_submission_type = submission_type opts,
                r_max_score = (if max_score opts \<noteq> 0 then max_score opts else 10),
                r_weight = w,
                r_tz_name = (case c_main_branch_time_zone c of None \<Rightarrow> ''UTC'' | Some tz \<Rightarrow> tz)\<rparr>"
  let ?rows = "filter (\<lambda>a. a_course a = c_id (r_course ?args) \<and> a_title a = r_title ?args)
                 (assignments s)"
  have r: "resolve l opts s = Inr ?args"
    by (rule resolve_Inr [OF assms(2-4)])
  have "\<exists>a created s1. upsert_assignment ?args s = Inr (a, created, s1)"
  proof (cases ?rows)
    case Nil
    from upsert_assignment_created [OF Nil] show ?thesis by blast
  next
    case (Cons a0 rest)
    with assms(5) have "?rows = [a0]" by simp
    from upsert_assignment_updated [OF this] show ?thesis by blast
  qed
  then obtain a created s1 where u: "upsert_assignment ?args s = Inr (a, created, s1)"
    by blast
  have one: "filter (\<lambda>a. a_course a = c_id c \<and> a_title a = strip (title opts))
               (assignments (snd (handle l opts s))) = [a]"
    using upsert_assignment_unique [OF u] handle_assignments [OF r u] by simp
  have "a_maximum_score a = r_max_score ?args"
    using upsert_assignment_cases [OF u] by auto
  with assms(1) have "a_maximum_score a = 10" by simp
  with one show ?thesis by blast
qed

theorem zero_max_score_becomes_ten_witness:
  "\<exists>a. filter (\<lambda>a. a_course a = 2 \<and> a_title a = code_points ''Homework 1'')
          (assignments
             (snd (handle demo_lib (demo_options\<lparr>max_score := 0\<rparr>)
                     (snd (handle demo_lib (demo_options\<lparr>max_score := 7\<rparr>) demo_state))))) = [a] \<and>
        a_maximum_score a = 10"
proof -
  let ?c = "\<lparr>c_id = 2, c_meta_course_name = ''Algorithms'', c_main_branch_time_zone = None\<rparr>"
  let ?o = "demo_options\<lparr>max_score := 0\<rparr>"
  let ?s = "snd (handle demo_lib (demo_options\<lparr>max_score := 7\<rparr>) demo_state)"
  have h1: "max_score ?o = 0" by code_simp
  have h2: "find_course ?o (courses ?s) = Some ?c" by code_simp
  have h3: "strptime demo_lib (deadline ?o) = Some ''2030-01-31 23:59''" by code_simp
  have h4: "Decimal demo_lib (weight ?o) = Some ''1.00''" by code_simp
  have h5: "length (filter (\<lambda>a. a_course a = c_id ?c \<and> a_title a = strip (title ?o))
                      (assignments ?s)) \<le> 1"
    by code_simp
  have k: "c_id ?c = 2" "strip (title ?o) = code_points ''Homework 1''" by code_simp+
  from zero_max_score_becomes_ten [OF h1 h2 h3 h4 h5] show ?thesis
    unfolding k .
qed

subsection \<open>The recalculation of statistics\<close>

lemma fold_call_update_stats_table:
  "student_assignments (fold (call_update_stats l) ks s) =
     fold (update_student_assignment_stats l) ks (student_assignments s)"
  by (induction ks arbitrary: s) (simp_all add: call_update_stats_def)

lemma recalculate_table:
  "student_assignments (recalculate l a s) =
     fold (update_student_assignment_stats l)
       (map sa_id (filter (\<lambda>sa. sa_assignment sa = a_id a)
                     (bulk_create_student_assignments l a (student_assignments s))))
       (bulk_create_student_assignments l a (student_assignments s))"
  by (simp add: recalculate_def Let_def fold_call_update_stats_table call_bulk_create_def)

lemma student_assignment_of_Some:
  assumes "student_assignment_of a_pk student_pk sas = Some sa"
  shows "sa \<in> set sas \<and> sa_assignment sa = a_pk \<and> sa_student sa = student_pk"
  using first_order_by_pk_least [OF assms [unfolded student_assignment_of_def]] by simp

text \<open>
  What the review seeding does when it raises nothing: it warns and leaves the
  StudentAssignment rows alone, or it assigns the reviewer to the row of the assignment
  and the student, calls the recalculation for that row and reports.
\<close>

lemma seed_review_item_outcome:
  assumes "seed_review_item l c a sn tn s = (None, s')"
  shows "((\<exists>m. events s' = events s @ [Stdout WARNING m]) \<and>
          student_assignments s' = student_assignments s) \<or>
         (\<exists>sa ct_pk j.
            sa \<in> set (student_assignments s) \<and> sa_assignment sa = a_id a \<and>
            events s' =
              events s @ [UpdateStats (sa_id sa), Stdout SUCCESS (ReviewSeeded (sa_id sa) j)] \<and>
            student_assignments s' =
              update_student_assignment_stats l (sa_id sa)
                (map (\<lambda>r. if sa_id r = sa_id sa
                           then r\<lparr>sa_assignee := Some ct_pk, sa_status := ON_CHECKING\<rparr>
                           else r)
                   (student_assignments s)))"
proof (cases "user_by_username sn (users s) = None \<or> user_by_username tn (users s) = None")
  case True
  from seed_review_item_no_user [OF True] assms show ?thesis
    by (auto simp: stdout_write_def)
next
  case False
  then obtain student teacher where
    st: "user_by_username sn (users s) = Some student" and
    te: "user_by_username tn (users s) = Some teacher"
    by auto
  let ?g = "get_or_create ct_id (\<lambda>ct. ct_course ct = c_id c \<and> ct_teacher ct = u_id teacher)
              (\<lambda>k. \<lparr>ct_id = k, ct_course = c_id c, ct_teacher = u_id teacher,
                     ct_reviewer = False, ct_lecturer = False\<rparr>)
              (course_teachers s)"
  show ?thesis
  proof (cases ?g)
    case (Inl e)
    with assms st te show ?thesis by (simp add: seed_review_item_def)
  next
    case (Inr t)
    obtain ct created cts where t: "t = (ct, created, cts)" by (cases t) auto
    show ?thesis
    proof (cases "student_assignment_of (a_id a) (u_id student) (student_assignments s)")
      case None
      with assms st te Inr t show ?thesis
        by (auto simp: seed_review_item_def Let_def stdout_write_def)
    next
      case (Some sa)
      from student_assignment_of_Some [OF Some]
      have mem: "sa \<in> set (student_assignments s)" "sa_assignment sa = a_id a" by simp_all
      have "\<exists>j. events s' =
              events s @ [UpdateStats (sa_id sa), Stdout SUCCESS (ReviewSeeded (sa_id sa) j)] \<and>
            student_assignments s' =
              update_student_assignment_stats l (sa_id sa)
                (map (\<lambda>r. if sa_id r = sa_id sa
                           then r\<lparr>sa_assignee := Some (ct_id ct), sa_status := ON_CHECKING\<rparr>
                           else r)
                   (student_assignments s))"
      proof (cases "first (order_by_pk ac_id (solutions_of (sa_id sa) (comments s)))")
        case None
        with assms st te Inr t Some show ?thesis
          by (simp add: seed_review_item_def Let_def stdout_write_def call_update_stats_def
                        save_def del: first_eq_None) auto
      next
        case found: (Some m)
        with assms st te Inr t Some show ?thesis
          by (simp add: seed_review_item_def Let_def stdout_write_def call_update_stats_def
                        save_def) auto
      qed
      with mem show ?thesis by blast
    qed
  qed
qed

lemma seed_review_step_outcome:
  assumes "seed_review_step l opts c a s = (None, s')"
  shows "((events s' = events s \<or> (\<exists>m. events s' = events s @ [Stdout WARNING m])) \<and>
          student_assignments s' = student_assignments s) \<or>
         (\<exists>sa ct_pk j.
            sa \<in> set (student_assignments s) \<and> sa_assignment sa = a_id a \<and>
            events s' =
              events s @ [UpdateStats (sa_id sa), Stdout SUCCESS (ReviewSeeded (sa_id sa) j)] \<and>
            student_assignments s' =
              update_student_assignment_stats l (sa_id sa)
                (map (\<lambda>r. if sa_id r = sa_id sa
                           then r\<lparr>sa_assignee := Some ct_pk, sa_status := ON_CHECKING\<rparr>
                           else r)
                   (student_assignments s)))"
proof (cases "seed_review opts")
  case False
  with assms show ?thesis by (simp add: seed_review_step_def)
next
  case True
  show ?thesis
  proof (cases "falsy (student_username opts) \<or> falsy (teacher_username opts)")
    case True
    with assms \<open>seed_review opts\<close> show ?thesis
      by (auto simp: seed_review_step_def stdout_write_def)
  next
    case False
    then obtain sn tn where "student_username opts = Some sn" "teacher_username opts = Some tn"
      by (auto simp: falsy_def split: option.splits)
    with assms False \<open>seed_review opts\<close>
    have "seed_review_item l c a sn tn s = (None, s')"
      by (simp add: seed_review_step_def)
    from seed_review_item_outcome [OF this] show ?thesis by blast
  qed
qed

lemma seed_review_step_off:
  "\<not> seed_review opts \<Longrightarrow> seed_review_step l opts c a s = (None, s)"
  by (simp add: seed_review_step_def)

text \<open>
  Claim C5 as it is written fails on a run whose review seeding succeeds: before the
  command reports success the recalculation is called twice for the seeded row, once in
  the pass over the rows of the assignment and once more by the seeding.
\<close>

theorem statistics_called_twice_counterexample:
  "fst (handle demo_lib
          (demo_options\<lparr>seed_review := True, student_username := Some ''student'',
                         teacher_username := Some ''teacher''\<rparr>)
          demo_state) = None \<and>
   events (snd (handle demo_lib
                  (demo_options\<lparr>seed_review := True, student_username := Some ''student'',
                                 teacher_username := Some ''teacher''\<rparr>)
                  demo_state)) =
     [BulkCreate 1, UpdateStats 1, UpdateStats 2, UpdateStats 1,
      Stdout SUCCESS (ReviewSeeded 1 1),
      Stdout SUCCESS
        (AssignmentOk 1 (code_points ''Homework 1'') ''2030-01-31 23:59+00:00'' True)]"
  by code_simp

text \<open>
  Claim C5, as amended. In a run that succeeds, what the command adds to the log begins
  with the service call that creates the StudentAssignment rows. The calls of the
  recalculation follow at once: one for each row of the assignment in the table the
  service returned, in the order of the table, each applied to the table the call before
  it left. Then either nothing or one warning follows, and the table of StudentAssignment
  rows is the one the pass left; or the review seeding succeeded on a row of the
  assignment, and the recalculation is called once more, for that row, after the reviewer
  is assigned to it. The success report is the last event. Without \<^verbatim>\<open>--seed-review\<close>
  nothing stands between the pass and the report.
\<close>

theorem statistics_recalculated_before_success:
  assumes "fst (handle l opts s) = None"
  shows "\<exists>a created created_rows ids passed seeding.
           a \<in> set (assignments (snd (handle l opts s))) \<and>
           created_rows = bulk_create_student_assignments l a (student_assignments s) \<and>
           ids = map sa_id (filter (\<lambda>sa. sa_assignment sa = a_id a) created_rows) \<and>
           passed = fold (update_student_assignment_stats l) ids created_rows \<and>
           events (snd (handle l opts s)) =
             events s @ BulkCreate (a_id a) # map UpdateStats ids @ seeding @
               [Stdout SUCCESS (AssignmentOk (a_id a) (a_title a) (a_deadline_at a) created)] \<and>
           ((seeding = [] \<or> (\<exists>m. seeding = [Stdout WARNING m])) \<and>
            student_assignments (snd (handle l opts s)) = passed \<or>
            (\<exists>sa ct_pk j.
               sa \<in> set passed \<and> sa_assignment sa = a_id a \<and>
               seeding = [UpdateStats (sa_id sa), Stdout SUCCESS (ReviewSeeded (sa_id sa) j)] \<and>
               student_assignments (snd (handle l opts s)) =
                 update_student_assignment_stats l (sa_id sa)
                   (map (\<lambda>r. if sa_id r = sa_id sa
                              then r\<lparr>sa_assignee := Some ct_pk, sa_status := ON_CHECKING\<rparr>
                              else r)
                      passed))) \<and>
           (seed_review opts \<or> seeding = [])"
proof -
  from handle_success [OF assms] obtain args a created s1 s3 where
    r: "resolve l opts s = Inr args" and
    u: "upsert_assignment args s = Inr (a, created, s1)" and
    sr: "seed_review_step l opts (r_course args) a (recalculate l a s1) = (None, s3)" and
    h: "snd (handle l opts s) =
          stdout_write SUCCESS (AssignmentOk (a_id a) (a_title a) (a_deadline_at a) created) s3"
    by blast
  let ?rows = "bulk_create_student_assignments l a (student_assignments s)"
  let ?ids = "map sa_id (filter (\<lambda>sa. sa_assignment sa = a_id a) ?rows)"
  let ?passed = "fold (update_student_assignment_stats l) ?ids ?rows"
  let ?ok = "Stdout SUCCESS (AssignmentOk (a_id a) (a_title a) (a_deadline_at a) created)"
  have ev2: "events (recalculate l a s1) = events s @ BulkCreate (a_id a) # map UpdateStats ?ids"
    by (simp add: recalculate_events upsert_assignment_frame [OF u])
  have tb2: "student_assignments (recalculate l a s1) = ?passed"
    by (simp add: recalculate_table upsert_assignment_frame [OF u])
  have mem: "a \<in> set (assignments (snd (handle l opts s)))"
    using handle_assignments [OF r u] upsert_assignment_row [OF u] by simp
  have evh: "events (snd (handle l opts s)) = events s3 @ [?ok]"
    and tbh: "student_assignments (snd (handle l opts s)) = student_assignments s3"
    by (simp_all add: h stdout_write_frame)
  have off: "s3 = recalculate l a s1" if "\<not> seed_review opts"
    using sr seed_review_step_off [OF that, of l "r_course args" a "recalculate l a s1"] by simp
  from seed_review_step_outcome [OF sr]
  have "\<exists>seeding.
          events s3 = events (recalculate l a s1) @ seeding \<and>
          ((seeding = [] \<or> (\<exists>m. seeding = [Stdout WARNING m])) \<and>
            student_assignments s3 = ?passed \<or>
            (\<exists>sa ct_pk j.
               sa \<in> set ?passed \<and> sa_assignment sa = a_id a \<and>
               seeding = [UpdateStats (sa_id sa), Stdout SUCCESS (ReviewSeeded (sa_id sa) j)] \<and>
               student_assignments s3 =
                 update_student_assignment_stats l (sa_id sa)
                   (map (\<lambda>r. if sa_id r = sa_id sa
                              then r\<lparr>sa_assignee := Some ct_pk, sa_status := ON_CHECKING\<rparr>
                              else r)
                      ?passed))) \<and>
          (seed_review opts \<or> seeding = [])"
  proof (cases "seed_review opts")
    case False
    from off [OF False] have "events s3 = events (recalculate l a s1) @ []"
      "student_assignments s3 = ?passed" using tb2 by simp_all
    then show ?thesis by blast
  next
    case True
    from seed_review_step_outcome [OF sr] show ?thesis
      unfolding tb2 using True by (elim disjE conjE exE) (simp, blast+)
  qed
  then obtain seeding where
    ev3: "events s3 = events (recalculate l a s1) @ seeding" and
    rest: "(seeding = [] \<or> (\<exists>m. seeding = [Stdout WARNING m])) \<and>
            student_assignments s3 = ?passed \<or>
            (\<exists>sa ct_pk j.
               sa \<in> set ?passed \<and> sa_assignment sa = a_id a \<and>
               seeding = [UpdateStats (sa_id sa), Stdout SUCCESS (ReviewSeeded (sa_id sa) j)] \<and>
               student_assignments s3 =
                 update_student_assignment_stats l (sa_id sa)
                   (map (\<lambda>r. if sa_id r = sa_id sa
                              then r\<lparr>sa_assignee := Some ct_pk, sa_status := ON_CHECKING\<rparr>
                              else r)
                      ?passed))" and
    sw: "seed_review opts \<or> seeding = []"
    by blast
  have "events (snd (handle l opts s)) =
          events s @ BulkCreate (a_id a) # map UpdateStats ?ids @ seeding @ [?ok]"
    by (simp add: evh ev3 ev2)
  with mem rest sw show ?thesis
    unfolding tbh by blast
qed

theorem statistics_recalculated_before_success_witness:
  "\<exists>a created created_rows ids passed seeding.
     a \<in> set (assignments
                (snd (handle demo_lib
                        (demo_options\<lparr>seed_review := True,
                                       student_username := Some ''student'',
                                       teacher_username := Some ''teacher''\<rparr>)
                        demo_state))) \<and>
     created_rows =
       bulk_create_student_assignments demo_lib a (student_assignments demo_state) \<and>
     ids = map sa_id (filter (\<lambda>sa. sa_assignment sa = a_id a) created_rows) \<and>
     passed = fold (update_student_assignment_stats demo_lib) ids created_rows \<and>
     [BulkCreate 1, UpdateStats 1, UpdateStats 2, UpdateStats 1,
      Stdout SUCCESS (ReviewSeeded 1 1),
      Stdout SUCCESS
        (AssignmentOk 1 (code_points ''Homework 1'') ''2030-01-31 23:59+00:00'' True)] =
       events demo_state @ BulkCreate (a_id a) # map UpdateStats ids @ seeding @
         [Stdout SUCCESS (AssignmentOk (a_id a) (a_title a) (a_deadline_at a) created)] \<and>
     ((seeding = [] \<or> (\<exists>m. seeding = [Stdout WARNING m])) \<and>
      [\<lparr>sa_id = 1, sa_assignment = 1, sa_student = 20, sa_assignee = Some 1,
        sa_status = ON_CHECKING\<rparr>,
       \<lparr>sa_id = 2, sa_assignment = 1, sa_student = 21, sa_assignee = None,
        sa_status = OtherStatus ''not_submitted''\<rparr>] = passed \<or>
      (\<exists>sa ct_pk j.
         sa \<in> set passed \<and> sa_assignment sa = a_id a \<and>
         seeding = [UpdateStats (sa_id sa), Stdout SUCCESS (ReviewSeeded (sa_id sa) j)] \<and>
         [\<lparr>sa_id = 1, sa_assignment = 1, sa_student = 20, sa_assignee = Some 1,
           sa_status = ON_CHECKING\<rparr>,
          \<lparr>sa_id = 2, sa_assignment = 1, sa_student = 21, sa_assignee = None,
           sa_status = OtherStatus ''not_submitted''\<rparr>] =
           update_student_assignment_stats demo_lib (sa_id sa)
             (map (\<lambda>r. if sa_id r = sa_id sa
                        then r\<lparr>sa_assignee := Some ct_pk, sa_status := ON_CHECKING\<rparr>
                        else r)
                passed))) \<and>
     (seed_review
        (demo_options\<lparr>seed_review := True, student_username := Some ''student'',
                       teacher_username := Some ''teacher''\<rparr>) \<or>
      seeding = [])"
proof -
  let ?o = "demo_options\<lparr>seed_review := True, student_username := Some ''student'',
                         teacher_username := Some ''teacher''\<rparr>"
  have ok: "fst (handle demo_lib ?o demo_state) = None" by code_simp
  have ev: "events (snd (handle demo_lib ?o demo_state)) =
              [BulkCreate 1, UpdateStats 1, UpdateStats 2, UpdateStats 1,
               Stdout SUCCESS (ReviewSeeded 1 1),
               Stdout SUCCESS
                 (AssignmentOk 1 (code_points ''Homework 1'') ''2030-01-31 23:59+00:00'' True)]"
    by code_simp
  have tb: "student_assignments (snd (handle demo_lib ?o demo_state)) =
              [\<lparr>sa_id = 1, sa_assignment = 1, sa_student = 20, sa_assignee = Some 1,
                sa_status = ON_CHECKING\<rparr>,
               \<lparr>sa_id = 2, sa_assignment = 1, sa_student = 21, sa_assignee = None,
                sa_status = OtherStatus ''not_submitted''\<rparr>]"
    by code_simp
  from statistics_recalculated_before_success [OF ok] show ?thesis
    unfolding ev tb .
qed

subsection \<open>Review seeding without its prerequisites\<close>







subsection \<open>Running the command again\<close>

lemma resolve_courses:
  "courses s' = courses s \<Longrightarrow> resolve l opts s' = resolve l opts s"
  by (simp add: resolve_def)

lemma handle_courses: "courses (snd (handle l opts s)) = courses s"
proof (cases "resolve l opts s")
  case (Inl e)
  then show ?thesis by (simp add: handle_def)
next
  case (Inr args)
  show ?thesis
  proof (cases "upsert_assignment args s")
    case (Inl e)
    with Inr show ?thesis by (simp add: handle_def)
  next
    case u: (Inr t)
    obtain a created s1 where t: "t = (a, created, s1)" by (cases t) auto
    obtain r s3 where sr: "seed_review_step l opts (r_course args) a (recalculate l a s1) = (r, s3)"
      by (cases "seed_review_step l opts (r_course args) a (recalculate l a s1)") auto
    have "courses s3 = courses s"
      using seed_review_step_frame [OF sr] upsert_assignment_frame(1) [OF u [unfolded t]]
      by (simp add: recalculate_frame)
    with Inr u t sr show ?thesis
      by (cases r) (simp_all add: handle_def stdout_write_frame)
  qed
qed

lemma key_fields_idem [simp]: "key_fields args (key_fields args r) = key_fields args r"
  by (simp add: key_fields_def)

lemma save_idem:
  assumes "\<And>r. pk (upd r) = pk r" and "\<And>r. upd (upd r) = upd r"
  shows "save pk k upd (save pk k upd rows) = save pk k upd rows"
  using assms by (induction rows) (auto simp: save_def)

text \<open>Updating the row that the step has just written changes nothing.\<close>

lemma upsert_assignment_again:
  assumes "upsert_assignment args s = Inr (a, created, s1)"
  shows "save a_id (a_id a) (key_fields args) (assignments s1) = assignments s1"
  using upsert_assignment_cases [OF assms]
proof (elim disjE conjE exE)
  assume c: "created" and s1: "s1 = s\<lparr>assignments := assignments s @ [a]\<rparr>"
    and k: "a_id a = next_pk a_id (assignments s)"
  have "\<forall>r\<in>set (assignments s). a_id r \<noteq> a_id a"
    using next_pk_fresh [of _ "assignments s" a_id] k by fastforce
  then have old: "save a_id (a_id a) (key_fields args) (assignments s) = assignments s"
    by (rule save_other_keys)
  have "key_fields args a = a"
    using assms c by (auto simp: upsert_assignment_def get_or_create_def Let_def key_fields_def
                           split: list.splits if_splits)
  with old s1 show ?thesis
    by (simp add: save_def)
next
  fix a0
  assume "a = key_fields args a0"
    "s1 = s\<lparr>assignments := save a_id (a_id a0) (key_fields args) (assignments s)\<rparr>"
  then show ?thesis
    by (simp add: save_idem)
qed

lemma handle_twice_assignments:
  "assignments (snd (handle l opts (snd (handle l opts s)))) =
     assignments (snd (handle l opts s))"
proof (cases "resolve l opts s")
  case (Inl e)
  then show ?thesis by (simp add: handle_def)
next
  case (Inr args)
  show ?thesis
  proof (cases "upsert_assignment args s")
    case (Inl e)
    with Inr show ?thesis by (simp add: handle_def)
  next
    case u0: (Inr t)
    obtain a created s1 where t: "t = (a, created, s1)" by (cases t) auto
    note u = u0 [unfolded t]
    let ?t1 = "snd (handle l opts s)"
    have as: "assignments ?t1 = assignments s1"
      by (rule handle_assignments [OF Inr u])
    have "courses ?t1 = courses s" by (rule handle_courses)
    then have "resolve l opts ?t1 = resolve l opts s" by (rule resolve_courses)
    with Inr have r': "resolve l opts ?t1 = Inr args" by simp
    have one: "filter (\<lambda>a. a_course a = c_id (r_course args) \<and> a_title a = r_title args)
                 (assignments ?t1) = [a]"
      using upsert_assignment_unique [OF u] as by simp
    have "assignments (snd (handle l opts ?t1)) =
            save a_id (a_id a) (key_fields args) (assignments ?t1)"
      using handle_assignments [OF r' upsert_assignment_updated [OF one]] by simp
    also have "\<dots> = assignments ?t1"
      using upsert_assignment_again [OF u] as by simp
    finally show ?thesis .
  qed
qed

lemma seed_review_item_comments:
  assumes "seed_review_item l c a sn tn s = (r, s')"
  shows "comments s' = comments s \<or>
         (\<exists>m. comments s' = comments s @ [m] \<and> ac_type m = SOLUTION \<and>
              solutions_of (ac_student_assignment m) (comments s) = [])"
  using assms
  by (auto simp: seed_review_item_def Let_def stdout_write_def call_update_stats_def
           split: option.splits sum.splits prod.splits)

lemma seed_review_step_comments:
  assumes "seed_review_step l opts c a s = (r, s')"
  shows "comments s' = comments s \<or>
         (\<exists>m. comments s' = comments s @ [m] \<and> ac_type m = SOLUTION \<and>
              solutions_of (ac_student_assignment m) (comments s) = [])"
  using assms
  by (auto simp: seed_review_step_def stdout_write_def
           split: if_splits option.splits dest: seed_review_item_comments)

lemma handle_comments:
  "comments (snd (handle l opts s)) = comments s \<or>
   (\<exists>m. comments (snd (handle l opts s)) = comments s @ [m] \<and> ac_type m = SOLUTION \<and>
        solutions_of (ac_student_assignment m) (comments s) = [])"
proof (cases "resolve l opts s")
  case (Inl e)
  then show ?thesis by (simp add: handle_def)
next
  case (Inr args)
  show ?thesis
  proof (cases "upsert_assignment args s")
    case (Inl e)
    with Inr show ?thesis by (simp add: handle_def)
  next
    case u0: (Inr t)
    obtain a created s1 where t: "t = (a, created, s1)" by (cases t) auto
    note u = u0 [unfolded t]
    obtain r s3 where sr: "seed_review_step l opts (r_course args) a (recalculate l a s1) = (r, s3)"
      by (cases "seed_review_step l opts (r_course args) a (recalculate l a s1)") auto
    have c2: "comments (recalculate l a s1) = comments s"
      by (simp add: recalculate_frame upsert_assignment_frame [OF u])
    have h: "comments (snd (handle l opts s)) = comments s3"
      using Inr u sr by (cases r) (simp_all add: handle_def stdout_write_frame)
    from seed_review_step_comments [OF sr] show ?thesis
      unfolding h c2 .
  qed
qed

lemma handle_solutions_at_most_one:
  assumes "\<forall>k. length (solutions_of k (comments s)) \<le> 1"
  shows "\<forall>k. length (solutions_of k (comments (snd (handle l opts s)))) \<le> 1"
  using handle_comments [of l opts s]
proof (elim disjE exE conjE)
  assume "comments (snd (handle l opts s)) = comments s"
  with assms show ?thesis by simp
next
  fix m
  assume c: "comments (snd (handle l opts s)) = comments s @ [m]"
    and n: "solutions_of (ac_student_assignment m) (comments s) = []"
  show ?thesis
  proof
    fix k
    show "length (solutions_of k (comments (snd (handle l opts s)))) \<le> 1"
    proof (cases "k = ac_student_assignment m")
      case True
      with n c show ?thesis by (simp add: solutions_of_def)
    next
      case False
      with c assms [rule_format, of k] show ?thesis by (simp add: solutions_of_def)
    qed
  qed
qed

text \<open>
  Claim C9. A second run with the same arguments leaves the table of assignments exactly
  as the first run left it, so it creates no second row of the course and title. A run
  adds no comment, or adds one comment of type SOLUTION for a StudentAssignment row that
  had none. Hence, from a state where every StudentAssignment row has at most one comment
  of type SOLUTION, this holds after any number of runs.
\<close>

theorem rerun_creates_no_second_row:
  "assignments (snd (handle l opts (snd (handle l opts s)))) =
     assignments (snd (handle l opts s)) \<and>
   (comments (snd (handle l opts s)) = comments s \<or>
    (\<exists>m. comments (snd (handle l opts s)) = comments s @ [m] \<and> ac_type m = SOLUTION \<and>
         solutions_of (ac_student_assignment m) (comments s) = [])) \<and>
   ((\<forall>k. length (solutions_of k (comments s)) \<le> 1) \<longrightarrow>
    (\<forall>n k. length (solutions_of k
                     (comments (((\<lambda>t. snd (handle l opts t)) ^^ n) s))) \<le> 1))"
proof (intro conjI impI)
  show "assignments (snd (handle l opts (snd (handle l opts s)))) =
          assignments (snd (handle l opts s))"
    by (rule handle_twice_assignments)
  show "comments (snd (handle l opts s)) = comments s \<or>
    (\<exists>m. comments (snd (handle l opts s)) = comments s @ [m] \<and> ac_type m = SOLUTION \<and>
         solutions_of (ac_student_assignment m) (comments s) = [])"
    by (rule handle_comments)
  assume inv: "\<forall>k. length (solutions_of k (comments s)) \<le> 1"
  show "\<forall>n k. length (solutions_of k
                     (comments (((\<lambda>t. snd (handle l opts t)) ^^ n) s))) \<le> 1"
  proof
    fix n
    show "\<forall>k. length (solutions_of k
                     (comments (((\<lambda>t. snd (handle l opts t)) ^^ n) s))) \<le> 1"
    proof (induction n)
      case 0
      with inv show ?case by simp
    next
      case (Suc n)
      from handle_solutions_at_most_one [OF Suc] show ?case by simp
    qed
  qed
qed

theorem rerun_creates_no_second_row_witness:
  "assignments
     (snd (handle demo_lib
             (demo_options\<lparr>seed_review := True, student_username := Some ''student'',
                            teacher_username := Some ''teacher''\<rparr>)
             (snd (handle demo_lib
                     (demo_options\<lparr>seed_review := True, student_username := Some ''student'',
                                    teacher_username := Some ''teacher''\<rparr>)
                     demo_state)))) =
   assignments
     (snd (handle demo_lib
             (demo_options\<lparr>seed_review := True, student_username := Some ''student'',
                            teacher_username := Some ''teacher''\<rparr>)
             demo_state)) \<and>
   length (solutions_of 1
     (comments
        (snd (handle demo_lib
                (demo_options\<lparr>seed_review := True, student_username := Some ''student'',
                               teacher_username := Some ''teacher''\<rparr>)
                (snd (handle demo_lib
                        (demo_options\<lparr>seed_review := True, student_username := Some ''student'',
                                       teacher_username := Some ''teacher''\<rparr>)
                        demo_state)))))) \<le> 1 \<and>
   comments
     (snd (handle demo_lib
             (demo_options\<lparr>seed_review := True, student_username := Some ''student'',
                            teacher_username := Some ''teacher''\<rparr>)
             (snd (handle demo_lib
                     (demo_options\<lparr>seed_review := True, student_username := Some ''student'',
                                    teacher_username := Some ''teacher''\<rparr>)
                     demo_state)))) =
     [\<lparr>ac_id = 1, ac_student_assignment = 1, ac_type = SOLUTION,
       ac_text = ''Seeded solution for review'', ac_author = 20, ac_is_published = True\<rparr>]"
proof -
  let ?o = "demo_options\<lparr>seed_review := True, student_username := Some ''student'',
                         teacher_username := Some ''teacher''\<rparr>"
  have inv: "\<forall>k. length (solutions_of k (comments demo_state)) \<le> 1"
    by (simp add: demo_state_def solutions_of_def)
  note t = rerun_creates_no_second_row [where l = demo_lib and opts = ?o and s = demo_state]
  note t1 = t [THEN conjunct1]
  note t3 = t [THEN conjunct2, THEN conjunct2, THEN mp, OF inv,
               THEN spec [where x = "Suc (Suc 0)"], THEN spec [where x = 1]]
  have c: "comments (snd (handle demo_lib ?o (snd (handle demo_lib ?o demo_state)))) =
     [\<lparr>ac_id = 1, ac_student_assignment = 1, ac_type = SOLUTION,
       ac_text = ''Seeded solution for review'', ac_author = 20, ac_is_published = True\<rparr>]"
    by code_simp
  from t1 t3 c show ?thesis by simp
qed

end
